theory Spec2Isabelle
  imports Complex_Main
begin

section \<open>The numerical integrator of the tunnelling simulation (numerics.py)\<close>

text \<open>
  A shallow embedding of the class \<open>NumericalCalculation\<close> of \<open>numerics.py\<close>.

  Python floats are modelled by \<^typ>\<open>real\<close> and numpy's complex numbers by
  \<^typ>\<open>complex\<close>: the arithmetic is exact, so rounding, overflow, infinities and NaN are
  outside the model (numpy's square root of a negative energy is NaN, with a warning and no
  exception; the statements about the wavenumber assume a non-negative energy). The seven
  arguments are Python floats, as \<open>gui.py\<close> passes them, so a division by zero raises
  ZeroDivisionError. One-dimensional arrays are lists, the dense \<open>n \<times> n\<close> arrays
  \<open>A\<close> and \<open>B\<close> are lists of rows (the conversion to a sparse format changes the
  representation only). Every exception the constructor can raise is a value of
  \<open>py_error\<close>. The sparse LU factorisation \<open>scipy.sparse.linalg.splu\<close> and the
  \<open>solve\<close> method of the object it returns belong to a library; they are parameters
  of the model.

  Rounding matters where a float is truncated to an integer: \<open>division_x\<close> and
  \<open>division_time\<close> are \<open>int\<close> of a quotient of two doubles, and a quotient rounded
  to just below an integer loses a whole unit. The division of these two statements is
  therefore the parameter \<open>fdiv\<close> of the model: \<open>fdiv a b\<close> stands for the double that
  Python computes for the quotient whose operands the model holds as \<open>a\<close> and \<open>b\<close>.
  Nothing is assumed about \<open>fdiv\<close> unless a theorem says so.
\<close>

subsection \<open>Library: scipy.constants\<close>

text \<open>
  \<open>from scipy.constants import hbar, m_e, e\<close>. The Planck constant and the elementary
  charge are exact SI values, \<open>hbar\<close> is \<open>h / (2 * pi)\<close> as scipy computes it, the electron
  mass is the CODATA 2018 value. The name \<open>e\<close> is written \<open>elementary_charge\<close>, its
  other name in scipy.
\<close>

definition hbar :: real where
  "hbar = (6.62607015 / 10 ^ 34) / (2 * pi)"

definition m_e :: real where
  "m_e = 9.1093837015 / 10 ^ 31"

definition elementary_charge :: real where
  "elementary_charge = 1.602176634 / 10 ^ 19"

subsection \<open>Library: the numpy operations the class uses\<close>

datatype py_error = ZeroDivisionError | ValueError | IndexError | RuntimeError

text \<open>\<open>int(x)\<close> of a float truncates towards zero.\<close>

definition py_int :: "real \<Rightarrow> int" where
  "py_int v = (if 0 \<le> v then \<lfloor>v\<rfloor> else \<lceil>v\<rceil>)"

text \<open>
  \<open>np.linspace(start, stop, num)\<close> for \<open>num \<ge> 0\<close> (a negative \<open>num\<close> raises
  ValueError, which the caller below checks first): \<open>num\<close> points
  \<open>start + i * step\<close> with \<open>step = (stop - start) / (num - 1)\<close>; a single point is
  \<open>start\<close>.
\<close>

definition linspace :: "real \<Rightarrow> real \<Rightarrow> nat \<Rightarrow> real list" where
  "linspace start stop num =
     (if num = 1 then [start]
      else map (\<lambda>i. start + real i * ((stop - start) / real (num - 1))) [0..<num])"

text \<open>The slice \<open>a[1:-1]\<close>: empty for fewer than three elements.\<close>

definition interior :: "'a list \<Rightarrow> 'a list" where
  "interior a = butlast (tl a)"

text \<open>
  The slice assignment \<open>a[1:-1] = v\<close> of numpy: \<open>v\<close> must have the length of the
  slice, or length one (it is then broadcast); anything else raises ValueError. The entries
  outside the slice stay.
\<close>

definition assign_interior :: "'a list \<Rightarrow> 'a list \<Rightarrow> py_error + 'a list" where
  "assign_interior a v =
     (let m = length (interior a) in
      if length v = m then Inr (take 1 a @ v @ drop (Suc m) a)
      else if length v = 1 then Inr (take 1 a @ replicate m (hd v) @ drop (Suc m) a)
      else Inl ValueError)"

text \<open>
  The indexed assignment \<open>M[rows, cols] = vals\<close> with index arrays: entry
  \<open>(rows[k], cols[k])\<close> becomes \<open>vals[k]\<close>, in the order of \<open>k\<close>. A scalar on the right
  is the constant list.
\<close>

fun assign_at :: "'a list list \<Rightarrow> nat list \<Rightarrow> nat list \<Rightarrow> 'a list \<Rightarrow> 'a list list" where
  "assign_at M (i # is) (j # js) (v # vs) = assign_at (M[i := (M ! i)[j := v]]) is js vs"
| "assign_at M _ _ _ = M"

definition zeros_matrix :: "nat \<Rightarrow> complex list list" where
  "zeros_matrix n = replicate n (replicate n 0)"

text \<open>The product \<open>M @ v\<close> of a matrix and a vector, and the sum of two vectors.\<close>

definition matvec :: "complex list list \<Rightarrow> complex list \<Rightarrow> complex list" where
  "matvec M v = map (\<lambda>row. sum_list (map2 (*) row v)) M"

definition vec_add :: "complex list \<Rightarrow> complex list \<Rightarrow> complex list" where
  "vec_add u v = map2 (+) u v"

subsection \<open>The class NumericalCalculation\<close>

record 'lu numerical_calculation =
  self_size_packet :: real
  self_size_barrier :: real
  self_time_duration :: real
  self_energy_packet :: real
  self_potential_barrier_height :: real
  self_dx :: real
  self_dt :: real
  self_x_packet :: real
  self_x_barrier :: real
  self_x_min :: real
  self_x_max :: real
  self_division_x :: int
  self_x :: "real list"
  self_division_time :: int
  self_t :: "real list"
  self_V :: "real list"
  self_k :: real
  self_dk :: real
  self_K :: "real list"
  self_A :: "complex list list"
  self_B :: "complex list list"
  self_b :: "complex list"
  self_lu :: 'lu
  self_packet :: "complex list"
  self_rhs_eq :: "complex list"

text \<open>\<open>_gauss\<close>, with the three fields of \<open>self\<close> it reads as arguments.\<close>

definition gauss :: "real \<Rightarrow> real \<Rightarrow> real \<Rightarrow> real \<Rightarrow> complex" where
  "gauss x_packet size_packet k x =
     exp (complex_of_real (- ((x - x_packet) ^ 2) / (4 * size_packet ^ 2))
          + \<i> * complex_of_real k * complex_of_real x)
     / complex_of_real ((2 * pi * size_packet ^ 2) powr 0.25)"

text \<open>The coefficients \<open>r\<close> and \<open>q\<close> of \<open>_get_numerical_parameters\<close>.\<close>

definition coeff_r :: "real \<Rightarrow> real \<Rightarrow> complex" where
  "coeff_r dt dx = \<i> * complex_of_real dt / complex_of_real (dx ^ 2)
                     * complex_of_real hbar / complex_of_real (4 * m_e)"

definition coeff_q :: "real \<Rightarrow> real \<Rightarrow> real list \<Rightarrow> complex list" where
  "coeff_q dt dx V =
     map (\<lambda>v. - \<i> * complex_of_real dt / complex_of_real hbar * complex_of_real v
               + 1 - 2 * coeff_r dt dx) (interior V)"

text \<open>The three assignments that fill \<open>A\<close>, and the three that fill \<open>B\<close>.\<close>

definition build_A :: "nat \<Rightarrow> complex \<Rightarrow> complex list list" where
  "build_A n r =
     (let A0 = zeros_matrix n;
          A1 = assign_at A0 [0..<n] [0..<n] (replicate n (1 + 2 * r));
          A2 = assign_at A1 [0..<n - 1] [1..<n] (replicate (n - 1) (- r));
          A3 = assign_at A2 [1..<n] [0..<n - 1] (replicate (n - 1) (- r))
      in A3)"

definition build_B :: "nat \<Rightarrow> complex \<Rightarrow> complex list \<Rightarrow> complex list list" where
  "build_B n r q =
     (let B0 = zeros_matrix n;
          B1 = assign_at B0 [0..<n] [0..<n] q;
          B2 = assign_at B1 [0..<n - 1] [1..<n] (replicate (n - 1) r);
          B3 = assign_at B2 [1..<n] [0..<n - 1] (replicate (n - 1) r)
      in B3)"

text \<open>
  \<open>__init__\<close>, with \<open>_get_numerical_parameters\<close> in its place; \<open>fdiv\<close> is the float
  division of the two quotients that \<open>int\<close> truncates. The exceptions, in the
  order the statements can raise them: the float divisions by \<open>self.dx\<close>, by
  \<open>self.dt\<close> and by \<open>self.x_max - self.x_min\<close> raise ZeroDivisionError;
  \<open>np.linspace\<close> raises ValueError for a negative number of points; \<open>np.zeros((n, n))\<close>
  raises ValueError for a negative \<open>n\<close>; \<open>self.b[0] = 0\<close> raises IndexError when
  \<open>n = 0\<close>; \<open>splu\<close> raises RuntimeError when it finds \<open>A\<close> singular (the parameter
  \<open>splu\<close> then returns \<open>None\<close>).
\<close>

definition NumericalCalculation ::
  "(real \<Rightarrow> real \<Rightarrow> real) \<Rightarrow> (complex list list \<Rightarrow> 'lu option)
     \<Rightarrow> real \<Rightarrow> real \<Rightarrow> real \<Rightarrow> real \<Rightarrow> real \<Rightarrow> real \<Rightarrow> real
     \<Rightarrow> py_error + 'lu numerical_calculation" where
  "NumericalCalculation fdiv splu size_packet size_barrier duration_time energy_packet
       potential_barrier_height dx dt =
     (let size_packet' = size_packet * (1 / 10 ^ 9);
          size_barrier' = size_barrier * (1 / 10 ^ 9);
          time_duration = duration_time * (1 / 10 ^ 15);
          energy_packet' = energy_packet * elementary_charge;
          potential_barrier_height' = potential_barrier_height * elementary_charge;
          dx' = dx * (1 / 10 ^ 12);
          dt' = dt * (1 / 10 ^ 18);
          sigma = 6 * size_packet';
          x_packet = 2 * sigma;
          x_barrier = x_packet + sigma;
          x_min = 0;
          x_max = x_barrier + 4 * sigma
      in
      if dx' = 0 then Inl ZeroDivisionError else
      let division_x = py_int (fdiv (x_max - x_min) dx') in
      if division_x < 0 then Inl ValueError else
      let x = linspace x_min x_max (nat division_x) in
      if dt' = 0 then Inl ZeroDivisionError else
      let division_time = py_int (fdiv time_duration dt') in
      if division_time < 0 then Inl ValueError else
      let t = linspace 0 time_duration (nat division_time);
          V = map (\<lambda>xi. if x_barrier \<le> xi \<and> xi \<le> x_barrier + size_barrier'
                          then potential_barrier_height' else 0) x;
          k = sqrt (2 * m_e * energy_packet') / hbar
      in
      if x_max - x_min = 0 then Inl ZeroDivisionError else
      let dk = 2 * pi / (x_max - x_min);
          K = map (\<lambda>u. dk * u) (linspace (- 1) 1 (nat division_x));
          n = division_x - 2
      in
      if n < 0 then Inl ValueError else
      let r = coeff_r dt' dx';
          q = coeff_q dt' dx' V;
          A = build_A (nat n) r;
          B = build_B (nat n) r q;
          b = replicate (nat n) 0
      in
      if n = 0 then Inl IndexError else
      case splu A of
        None \<Rightarrow> Inl RuntimeError
      | Some lu \<Rightarrow>
          let packet = map (gauss x_packet size_packet' k) x;
              rhs_eq = vec_add (matvec B (interior packet)) b
          in Inr \<lparr> self_size_packet = size_packet',
                   self_size_barrier = size_barrier',
                   self_time_duration = time_duration,
                   self_energy_packet = energy_packet',
                   self_potential_barrier_height = potential_barrier_height',
                   self_dx = dx',
                   self_dt = dt',
                   self_x_packet = x_packet,
                   self_x_barrier = x_barrier,
                   self_x_min = x_min,
                   self_x_max = x_max,
                   self_division_x = division_x,
                   self_x = x,
                   self_division_time = division_time,
                   self_t = t,
                   self_V = V,
                   self_k = k,
                   self_dk = dk,
                   self_K = K,
                   self_A = A,
                   self_B = B,
                   self_b = b,
                   self_lu = lu,
                   self_packet = packet,
                   self_rhs_eq = rhs_eq \<rparr>)"

text \<open>
  \<open>calculate_timestep\<close>; \<open>solve\<close> is the method \<open>solve\<close> of the factorisation object.
  It reads the factorisation stored at construction and has no access to \<open>splu\<close>.
\<close>

definition calculate_timestep ::
  "('lu \<Rightarrow> complex list \<Rightarrow> complex list) \<Rightarrow> 'lu numerical_calculation
     \<Rightarrow> py_error + 'lu numerical_calculation" where
  "calculate_timestep solve s =
     (case assign_interior (self_packet s) (solve (self_lu s) (self_rhs_eq s)) of
        Inl err \<Rightarrow> Inl err
      | Inr packet \<Rightarrow>
          Inr (s\<lparr> self_packet := packet,
                  self_rhs_eq := vec_add (matvec (self_B s) (interior packet)) (self_b s) \<rparr>))"

text \<open>\<open>get_packet\<close> returns a copy of the state vector.\<close>

definition get_packet :: "'lu numerical_calculation \<Rightarrow> complex list" where
  "get_packet s = self_packet s"

text \<open>
  A number of successive calls of \<open>calculate_timestep\<close>, as the loop of
  \<open>SimulationWorker.run\<close> in \<open>workers.py\<close> issues them; an exception ends the run.
\<close>

fun timesteps ::
  "('lu \<Rightarrow> complex list \<Rightarrow> complex list) \<Rightarrow> nat \<Rightarrow> 'lu numerical_calculation
     \<Rightarrow> py_error + 'lu numerical_calculation" where
  "timesteps solve 0 s = Inr s"
| "timesteps solve (Suc i) s =
     (case calculate_timestep solve s of
        Inl err \<Rightarrow> Inl err
      | Inr s' \<Rightarrow> timesteps solve i s')"

text \<open>
  An instance of the library parameters for the examples below: the factorisation object
  of a matrix is the matrix itself (\<open>splu\<close> is \<open>Some\<close>), and \<open>scalar_solve\<close>
  divides every entry of the right-hand side by the entry of a \<open>1 \<times> 1\<close> matrix,
  which solves a system of one equation.
\<close>

definition scalar_solve :: "complex list list \<Rightarrow> complex list \<Rightarrow> complex list" where
  "scalar_solve lu rhs = map (\<lambda>y. y / (lu ! 0 ! 0)) rhs"

text \<open>
  The instances the examples construct: a grid of three points (\<open>dx = 12000 pm\<close>), a grid
  of four points (\<open>dx = 10000 pm\<close>) with a barrier of a given size, and the default
  parameters of \<open>gui.py\<close>. Their float division is the exact one: the quotients of the
  first two are \<open>3.5\<close>, \<open>4.2\<close> and \<open>2.5\<close>, far from an integer, and at the default
  parameters Python computes the doubles \<open>4200 + 2\<^sup>-\<^sup>4\<^sup>0\<close> and \<open>3000 + 2\<^sup>-\<^sup>4\<^sup>1\<close>, whose
  integer parts are those of the exact quotients \<open>4200\<close> and \<open>3000\<close>.
\<close>

abbreviation single_point_calc :: "(complex list list) numerical_calculation" where
  "single_point_calc \<equiv> projr (NumericalCalculation (/) Some 1 1 1 1 1 12000 400)"

abbreviation coarse_calc :: "real \<Rightarrow> (complex list list) numerical_calculation" where
  "coarse_calc sb \<equiv> projr (NumericalCalculation (/) Some 1 sb 1 1 1 10000 400)"

abbreviation default_calc :: "(complex list list) numerical_calculation" where
  "default_calc \<equiv> projr (NumericalCalculation (/) Some 1 1 30 1 1 10 10)"


section \<open>Properties\<close>

subsection \<open>Indexed assignment and the tridiagonal fill\<close>

lemma length_row_update_entry [simp]:
  "length (M[i := (M ! i)[j := v]] ! k) = length (M ! k)"
proof (cases "i < length M")
  case True
  then show ?thesis by (cases "k = i") simp_all
next
  case False
  then show ?thesis by (simp add: list_update_beyond)
qed

lemma update_entry_other:
  "k \<noteq> i \<or> l \<noteq> j \<Longrightarrow> M[i := (M ! i)[j := v]] ! k ! l = M ! k ! l"
proof (cases "i < length M")
  case True
  assume "k \<noteq> i \<or> l \<noteq> j"
  with True show ?thesis by (cases "k = i") auto
next
  case False
  then show ?thesis by (simp add: list_update_beyond)
qed

lemma length_assign_at [simp]: "length (assign_at M is js vs) = length M"
  by (induction M "is" js vs rule: assign_at.induct) simp_all

lemma length_row_assign_at [simp]: "length (assign_at M is js vs ! i) = length (M ! i)"
proof (induction M "is" js vs rule: assign_at.induct)
  case (1 M i' "is" j js v vs)
  then show ?case by simp
qed simp_all

lemma assign_at_other:
  "(i, j) \<notin> set (zip is js) \<Longrightarrow> assign_at M is js vs ! i ! j = M ! i ! j"
proof (induction M "is" js vs rule: assign_at.induct)
  case (1 M i' "is" j' js v vs)
  then have ne: "i \<noteq> i' \<or> j \<noteq> j'" and rest: "(i, j) \<notin> set (zip is js)"
    by auto
  have "M[i' := (M ! i')[j' := v]] ! i ! j = M ! i ! j"
    using ne by (rule update_entry_other)
  with 1 rest show ?case by simp
qed simp_all

lemma assign_at_hit:
  "distinct (zip is js) \<Longrightarrow> k < length is \<Longrightarrow> k < length js \<Longrightarrow> k < length vs \<Longrightarrow>
   is ! k < length M \<Longrightarrow> js ! k < length (M ! (is ! k)) \<Longrightarrow>
   assign_at M is js vs ! (is ! k) ! (js ! k) = vs ! k"
proof (induction M "is" js vs arbitrary: k rule: assign_at.induct)
  case (1 M i "is" j js v vs)
  show ?case
  proof (cases k)
    case 0
    have "(i, j) \<notin> set (zip is js)" using 1(2) by simp
    then have "assign_at (M[i := (M ! i)[j := v]]) is js vs ! i ! j
                = M[i := (M ! i)[j := v]] ! i ! j"
      by (rule assign_at_other)
    also have "\<dots> = v" using 1(6,7) 0 by simp
    finally show ?thesis using 0 by simp
  next
    case (Suc k')
    let ?M = "M[i := (M ! i)[j := v]]"
    have len: "is ! k' < length ?M" using 1(6) Suc by simp
    have "length (?M ! (is ! k')) = length (M ! (is ! k'))"
      by simp
    then have row: "js ! k' < length (?M ! (is ! k'))" using 1(7) Suc by simp
    have "assign_at ?M is js vs ! (is ! k') ! (js ! k') = vs ! k'"
      using 1(2,3,4,5) Suc len row by (intro 1(1)) simp_all
    then show ?thesis using Suc by simp
  qed
qed simp_all

lemma zip_diag_mem: "(i, j) \<in> set (zip [0..<n] [0..<n]) \<longleftrightarrow> i = j \<and> i < n"
proof
  assume "(i, j) \<in> set (zip [0..<n] [0..<n])"
  then show "i = j \<and> i < n" by (auto simp: set_zip)
next
  assume "i = j \<and> i < n"
  then have "[0..<n] ! i = i" "[0..<n] ! i = j" "i < n" by simp_all
  then show "(i, j) \<in> set (zip [0..<n] [0..<n])"
    unfolding set_zip by force
qed

lemma zip_upper_mem: "(i, j) \<in> set (zip [0..<n - 1] [1..<n]) \<longleftrightarrow> j = Suc i \<and> j < n"
proof
  assume "(i, j) \<in> set (zip [0..<n - 1] [1..<n])"
  then show "j = Suc i \<and> j < n" by (auto simp: set_zip)
next
  assume "j = Suc i \<and> j < n"
  then have lt: "i < n - 1" and j: "j = Suc i" by auto
  then have "[0..<n - 1] ! i = i" "[1..<n] ! i = j" "i < n - 1" by simp_all
  then show "(i, j) \<in> set (zip [0..<n - 1] [1..<n])"
    unfolding set_zip by force
qed

lemma zip_lower_mem: "(i, j) \<in> set (zip [1..<n] [0..<n - 1]) \<longleftrightarrow> i = Suc j \<and> i < n"
proof
  assume "(i, j) \<in> set (zip [1..<n] [0..<n - 1])"
  then show "i = Suc j \<and> i < n" by (auto simp: set_zip)
next
  assume "i = Suc j \<and> i < n"
  then have lt: "j < n - 1" and i: "i = Suc j" by auto
  then have "[1..<n] ! j = i" "[0..<n - 1] ! j = j" "j < n - 1" by simp_all
  then show "(i, j) \<in> set (zip [1..<n] [0..<n - 1])"
    unfolding set_zip by force
qed

lemma distinct_zip_left: "distinct xs \<Longrightarrow> distinct (zip xs ys)"
  by (simp add: distinct_zipI1)

lemma length_zeros_matrix [simp]: "length (zeros_matrix n) = n"
  by (simp add: zeros_matrix_def)

lemma zeros_matrix_nth [simp]: "i < n \<Longrightarrow> zeros_matrix n ! i = replicate n 0"
  by (simp add: zeros_matrix_def)


lemma tridiag_fill:
  assumes i: "i < n" and j: "j < n" and d: "length d = n"
  shows "assign_at (assign_at (assign_at (zeros_matrix n) [0..<n] [0..<n] d)
             [0..<n - 1] [1..<n] (replicate (n - 1) u))
           [1..<n] [0..<n - 1] (replicate (n - 1) l) ! i ! j
         = (if i = Suc j then l else if j = Suc i then u else if i = j then d ! i else 0)"
proof -
  let ?A1 = "assign_at (zeros_matrix n) [0..<n] [0..<n] d"
  let ?A2 = "assign_at ?A1 [0..<n - 1] [1..<n] (replicate (n - 1) u)"
  let ?A3 = "assign_at ?A2 [1..<n] [0..<n - 1] (replicate (n - 1) l)"
  have A1: "?A1 ! i ! j = (if i = j then d ! i else 0)"
  proof (cases "i = j")
    case True
    have "?A1 ! ([0..<n] ! i) ! ([0..<n] ! i) = d ! i"
      using i d by (intro assign_at_hit distinct_zip_left) simp_all
    with True i show ?thesis by simp
  next
    case False
    then have "(i, j) \<notin> set (zip [0..<n] [0..<n])" by (simp add: zip_diag_mem)
    then have "?A1 ! i ! j = zeros_matrix n ! i ! j" by (rule assign_at_other)
    with False i j show ?thesis by simp
  qed
  have A2: "?A2 ! i ! j = (if j = Suc i then u else ?A1 ! i ! j)"
  proof (cases "j = Suc i")
    case True
    then have k: "i < n - 1" using j by simp
    have "?A2 ! ([0..<n - 1] ! i) ! ([1..<n] ! i) = replicate (n - 1) u ! i"
      using k i j by (intro assign_at_hit distinct_zip_left) simp_all
    with True k show ?thesis by simp
  next
    case False
    then have "(i, j) \<notin> set (zip [0..<n - 1] [1..<n])"
      using zip_upper_mem [of i j n] by simp
    then have "?A2 ! i ! j = ?A1 ! i ! j" by (rule assign_at_other)
    with False show ?thesis by simp
  qed
  have A3: "?A3 ! i ! j = (if i = Suc j then l else ?A2 ! i ! j)"
  proof (cases "i = Suc j")
    case True
    then have k: "j < n - 1" using i by simp
    have "?A3 ! ([1..<n] ! j) ! ([0..<n - 1] ! j) = replicate (n - 1) l ! j"
      using k i j by (intro assign_at_hit distinct_zip_left) simp_all
    with True k show ?thesis by simp
  next
    case False
    then have "(i, j) \<notin> set (zip [1..<n] [0..<n - 1])"
      using zip_lower_mem [of i j n] by simp
    then have "?A3 ! i ! j = ?A2 ! i ! j" by (rule assign_at_other)
    with False show ?thesis by simp
  qed
  show ?thesis
    unfolding A3 A2 A1 by auto
qed

lemma build_A_nth:
  "i < n \<Longrightarrow> j < n \<Longrightarrow>
   build_A n r ! i ! j = (if i = j then 1 + 2 * r else if i = Suc j \<or> j = Suc i then - r else 0)"
  unfolding build_A_def Let_def by (subst tridiag_fill) auto

lemma build_B_nth:
  "i < n \<Longrightarrow> j < n \<Longrightarrow> length q = n \<Longrightarrow>
   build_B n r q ! i ! j = (if i = j then q ! i else if i = Suc j \<or> j = Suc i then r else 0)"
  unfolding build_B_def Let_def by (subst tridiag_fill) auto

lemma length_build_A [simp]: "length (build_A n r) = n"
  by (simp add: build_A_def)

lemma length_build_B [simp]: "length (build_B n r q) = n"
  by (simp add: build_B_def)

lemma length_row_build_A [simp]: "i < n \<Longrightarrow> length (build_A n r ! i) = n"
  by (simp add: build_A_def)

lemma length_row_build_B [simp]: "i < n \<Longrightarrow> length (build_B n r q ! i) = n"
  by (simp add: build_B_def)

subsection \<open>Grids, slices and vectors\<close>

lemma length_linspace [simp]: "length (linspace a b n) = n"
  by (simp add: linspace_def)

lemma linspace_nth:
  "i < n \<Longrightarrow> linspace a b n ! i = a + real i * ((b - a) / real (n - 1))"
  by (auto simp: linspace_def)

lemma linspace_last: "2 \<le> n \<Longrightarrow> linspace a b n ! (n - 1) = b"
  by (simp add: linspace_nth)

lemma length_interior [simp]: "length (interior a) = length a - 2"
  by (simp add: interior_def)

lemma interior_nth: "i < length a - 2 \<Longrightarrow> interior a ! i = a ! Suc i"
  by (simp add: interior_def nth_butlast nth_tl)

lemma interior_map: "interior (map f a) = map f (interior a)"
  by (simp add: interior_def map_butlast map_tl)

lemma length_matvec [simp]: "length (matvec M v) = length M"
  by (simp add: matvec_def)

lemma length_vec_add [simp]: "length (vec_add u v) = min (length u) (length v)"
  by (simp add: vec_add_def)

lemma assign_interior_same_length:
  assumes "length v = length a - 2" and "2 \<le> length a"
  shows "assign_interior a v = Inr (a ! 0 # v @ [a ! (length a - 1)])"
proof -
  have t: "take 1 a = [a ! 0]"
    using assms(2) by (cases a) simp_all
  have "drop (Suc (length a - 2)) a = drop (length a - 1) a"
    using assms(2) by (simp add: Suc_diff_Suc numeral_2_eq_2)
  also have "\<dots> = [a ! (length a - 1)]"
    using assms(2) Cons_nth_drop_Suc [of "length a - 1" a] by simp
  finally show ?thesis
    using assms t by (simp add: assign_interior_def)
qed

lemma assign_interior_length:
  "assign_interior a v = Inr a' \<Longrightarrow> length a' = length a"
  by (auto simp: assign_interior_def Let_def split: if_splits)

subsection \<open>What a successful construction stores\<close>

lemma NC_fields:
  assumes "NumericalCalculation fdiv splu sp sb du en ph dx dt = Inr s"
  shows "self_size_packet s = sp * (1 / 10 ^ 9)"
    and "self_size_barrier s = sb * (1 / 10 ^ 9)"
    and "self_time_duration s = du * (1 / 10 ^ 15)"
    and "self_energy_packet s = en * elementary_charge"
    and "self_potential_barrier_height s = ph * elementary_charge"
    and "self_dx s = dx * (1 / 10 ^ 12)"
    and "self_dt s = dt * (1 / 10 ^ 18)"
    and "self_x_packet s = 2 * (6 * self_size_packet s)"
    and "self_x_barrier s = self_x_packet s + 6 * self_size_packet s"
    and "self_x_min s = 0"
    and "self_x_max s = self_x_barrier s + 4 * (6 * self_size_packet s)"
    and "self_division_x s = py_int (fdiv (self_x_max s - self_x_min s) (self_dx s))"
    and "self_x s = linspace (self_x_min s) (self_x_max s) (nat (self_division_x s))"
    and "self_division_time s = py_int (fdiv (self_time_duration s) (self_dt s))"
    and "self_t s = linspace 0 (self_time_duration s) (nat (self_division_time s))"
  using assms
  by (auto simp: NumericalCalculation_def Let_def split: if_splits option.splits)

lemma NC_derived:
  assumes "NumericalCalculation fdiv splu sp sb du en ph dx dt = Inr s"
  shows "self_V s = map (\<lambda>xi. if self_x_barrier s \<le> xi \<and> xi \<le> self_x_barrier s + self_size_barrier s
                              then self_potential_barrier_height s else 0) (self_x s)"
    and "self_k s = sqrt (2 * m_e * self_energy_packet s) / hbar"
    and "self_dk s = 2 * pi / (self_x_max s - self_x_min s)"
    and "self_K s = map (\<lambda>u. self_dk s * u) (linspace (- 1) 1 (nat (self_division_x s)))"
    and "self_A s = build_A (nat (self_division_x s - 2)) (coeff_r (self_dt s) (self_dx s))"
    and "self_B s = build_B (nat (self_division_x s - 2)) (coeff_r (self_dt s) (self_dx s))
                       (coeff_q (self_dt s) (self_dx s) (self_V s))"
    and "self_b s = replicate (nat (self_division_x s - 2)) 0"
    and "self_packet s = map (gauss (self_x_packet s) (self_size_packet s) (self_k s)) (self_x s)"
    and "self_rhs_eq s = vec_add (matvec (self_B s) (interior (self_packet s))) (self_b s)"
  using assms
  by (auto simp: NumericalCalculation_def Let_def split: if_splits option.splits)

lemma py_int_ge: "3 \<le> py_int v \<Longrightarrow> py_int v = \<lfloor>v\<rfloor> \<and> 3 \<le> v"
  by (auto simp: py_int_def split: if_splits)

lemma NC_valid:
  assumes "NumericalCalculation fdiv splu sp sb du en ph dx dt = Inr s"
  shows "dx \<noteq> 0" and "dt \<noteq> 0" and "sp \<noteq> 0"
    and "3 \<le> self_division_x s" and "0 \<le> self_division_time s"
    and "splu (self_A s) = Some (self_lu s)"
  using assms
  by (auto simp: NumericalCalculation_def Let_def split: if_splits option.splits)

lemma NC_succeeds:
  assumes "dx \<noteq> 0" and "dt \<noteq> 0" and "sp \<noteq> 0"
    and "3 \<le> py_int (fdiv (42 * (sp * (1 / 10 ^ 9))) (dx * (1 / 10 ^ 12)))"
    and "0 \<le> py_int (fdiv (du * (1 / 10 ^ 15)) (dt * (1 / 10 ^ 18)))"
    and "splu (build_A (nat (py_int (fdiv (42 * (sp * (1 / 10 ^ 9))) (dx * (1 / 10 ^ 12))) - 2))
            (coeff_r (dt * (1 / 10 ^ 18)) (dx * (1 / 10 ^ 12)))) \<noteq> None"
  shows "\<not> isl (NumericalCalculation fdiv splu sp sb du en ph dx dt)"
  using assms
  by (auto simp: NumericalCalculation_def Let_def split: if_splits option.splits)

lemma coeff_q_nth:
  "i < length V - 2 \<Longrightarrow>
   coeff_q dt dx V ! i =
     - \<i> * complex_of_real dt / complex_of_real hbar * complex_of_real (V ! Suc i)
       + 1 - 2 * coeff_r dt dx"
  by (simp add: coeff_q_def interior_nth)

lemma length_coeff_q [simp]: "length (coeff_q dt dx V) = length V - 2"
  by (simp add: coeff_q_def)

lemma NC_lengths:
  assumes "NumericalCalculation fdiv splu sp sb du en ph dx dt = Inr s"
  shows "length (self_x s) = nat (self_division_x s)"
    and "length (self_V s) = nat (self_division_x s)"
    and "length (self_packet s) = nat (self_division_x s)"
    and "length (self_A s) = nat (self_division_x s - 2)"
    and "length (self_B s) = nat (self_division_x s - 2)"
    and "length (self_b s) = nat (self_division_x s - 2)"
    and "length (self_rhs_eq s) = nat (self_division_x s - 2)"
    and "nat (self_division_x s) - 2 = nat (self_division_x s - 2)"
  using NC_fields(13) [OF assms] NC_derived [OF assms] NC_valid(4) [OF assms]
  by (simp_all add: nat_diff_distrib')


lemma not_isl_Inr: "\<not> isl v \<Longrightarrow> v = Inr (projr v)"
  by (cases v) simp_all

lemma NC_divisions:
  assumes "NumericalCalculation fdiv splu sp sb du en ph dx dt = Inr s"
  shows "self_division_x s = py_int (fdiv (42 * (sp * (1 / 10 ^ 9))) (dx * (1 / 10 ^ 12)))"
    and "self_division_time s = py_int (fdiv (du * (1 / 10 ^ 15)) (dt * (1 / 10 ^ 18)))"
proof -
  note f = NC_fields [OF assms]
  show "self_division_x s = py_int (fdiv (42 * (sp * (1 / 10 ^ 9))) (dx * (1 / 10 ^ 12)))"
    unfolding f(12) f(11) f(10) f(9) f(8) f(1) f(6) by simp
  show "self_division_time s = py_int (fdiv (du * (1 / 10 ^ 15)) (dt * (1 / 10 ^ 18)))"
    unfolding f(14) f(3) f(7) by simp
qed


lemma NC_splu_cong:
  fixes splu splu' :: "complex list list \<Rightarrow> 'lu option"
  assumes "NumericalCalculation fdiv splu sp sb du en ph dx dt = Inr s"
    and "splu' (self_A s) = splu (self_A s)"
  shows "NumericalCalculation fdiv splu' sp sb du en ph dx dt = Inr s"
proof -
  let ?A = "build_A (nat (py_int (fdiv (42 * (sp * (1 / 10 ^ 9))) (dx * (1 / 10 ^ 12))) - 2))
              (coeff_r (dt * (1 / 10 ^ 18)) (dx * (1 / 10 ^ 12)))"
  have A: "self_A s = ?A"
    unfolding NC_derived(5) [OF assms(1)] NC_divisions(1) [OF assms(1)]
      NC_fields(6) [OF assms(1)] NC_fields(7) [OF assms(1)] ..
  have "splu' ?A = splu ?A"
    using assms(2) unfolding A .
  then show ?thesis
    using assms(1)
    by (simp add: NumericalCalculation_def Let_def split: if_splits)
qed

subsection \<open>One time step and runs of time steps\<close>

lemma interior_Cons_snoc [simp]: "interior (a # v @ [b]) = v"
  by (simp add: interior_def)

lemma calculate_timestep_ok:
  assumes "2 \<le> length (self_packet s)"
    and "length (solve (self_lu s) (self_rhs_eq s)) = length (self_packet s) - 2"
  shows "calculate_timestep solve s =
           Inr (s\<lparr> self_packet := self_packet s ! 0 # solve (self_lu s) (self_rhs_eq s)
                                     @ [self_packet s ! (length (self_packet s) - 1)],
                   self_rhs_eq := vec_add (matvec (self_B s) (solve (self_lu s) (self_rhs_eq s)))
                                    (self_b s) \<rparr>)"
  using assms
  by (simp add: calculate_timestep_def assign_interior_same_length)

lemma calculate_timestep_frame:
  assumes "calculate_timestep solve s = Inr s'"
  shows "s' = s\<lparr> self_packet := self_packet s', self_rhs_eq := self_rhs_eq s' \<rparr>"
    and "length (self_packet s') = length (self_packet s)"
    and "self_rhs_eq s' = vec_add (matvec (self_B s') (interior (self_packet s'))) (self_b s')"
  using assms
  by (auto simp: calculate_timestep_def split: sum.splits dest: assign_interior_length)


lemma timesteps_frame:
  "timesteps solve k s = Inr s' \<Longrightarrow>
   s' = s\<lparr> self_packet := self_packet s', self_rhs_eq := self_rhs_eq s' \<rparr>
   \<and> length (self_packet s') = length (self_packet s)"
proof (induction k arbitrary: s)
  case 0
  then show ?case by simp
next
  case (Suc k)
  then obtain s1 where s1: "calculate_timestep solve s = Inr s1"
    and rest: "timesteps solve k s1 = Inr s'"
    by (auto split: sum.splits)
  note f = calculate_timestep_frame(1,2) [OF s1]
  from Suc.IH [OF rest]
  have a: "s' = s1\<lparr> self_packet := self_packet s', self_rhs_eq := self_rhs_eq s' \<rparr>"
    and b: "length (self_packet s') = length (self_packet s1)"
    by blast+
  have "s' = s\<lparr> self_packet := self_packet s', self_rhs_eq := self_rhs_eq s' \<rparr>"
    by (subst a, subst f(1)) simp
  with b f(2) show ?case by simp
qed

lemma timesteps_total:
  assumes "\<forall>rhs. length rhs = n \<longrightarrow> length (solve lu rhs) = n"
    and "self_lu s = lu" and "length (self_packet s) = n + 2"
    and "length (self_B s) = n" and "length (self_b s) = n" and "length (self_rhs_eq s) = n"
  shows "\<exists>s'. timesteps solve k s = Inr s'
            \<and> self_packet s' ! 0 = self_packet s ! 0
            \<and> self_packet s' ! (n + 1) = self_packet s ! (n + 1)
            \<and> length (self_rhs_eq s') = n"
  using assms(2-)
proof (induction k arbitrary: s)
  case 0
  then show ?case by simp
next
  case (Suc k)
  let ?v = "solve (self_lu s) (self_rhs_eq s)"
  let ?s1 = "s\<lparr> self_packet := self_packet s ! 0 # ?v @ [self_packet s ! (length (self_packet s) - 1)],
                 self_rhs_eq := vec_add (matvec (self_B s) ?v) (self_b s) \<rparr>"
  have lv: "length ?v = n"
    using assms(1) Suc.prems by simp
  have step: "calculate_timestep solve s = Inr ?s1"
    using lv Suc.prems by (intro calculate_timestep_ok) simp_all
  have "\<exists>s'. timesteps solve k ?s1 = Inr s'
            \<and> self_packet s' ! 0 = self_packet ?s1 ! 0
            \<and> self_packet s' ! (n + 1) = self_packet ?s1 ! (n + 1)
            \<and> length (self_rhs_eq s') = n"
    using lv Suc.prems by (intro Suc.IH) simp_all
  then obtain s' where s': "timesteps solve k ?s1 = Inr s'"
    and b0: "self_packet s' ! 0 = self_packet ?s1 ! 0"
    and b1: "self_packet s' ! (n + 1) = self_packet ?s1 ! (n + 1)"
    and lr: "length (self_rhs_eq s') = n"
    by blast
  have "self_packet ?s1 ! 0 = self_packet s ! 0"
    by simp
  moreover have "self_packet ?s1 ! (n + 1) = self_packet s ! (n + 1)"
    using lv Suc.prems(2) by (simp add: nth_append)
  ultimately show ?case
    using step s' b0 b1 lr by simp
qed

lemma NC_step_pre:
  assumes "NumericalCalculation fdiv splu sp sb du en ph dx dt = Inr s"
  shows "length (self_packet s) = nat (self_division_x s - 2) + 2"
    and "length (self_A s) = nat (self_division_x s - 2)"
    and "length (self_B s) = nat (self_division_x s - 2)"
    and "length (self_b s) = nat (self_division_x s - 2)"
    and "length (self_rhs_eq s) = nat (self_division_x s - 2)"
proof -
  have "nat (self_division_x s) = nat (self_division_x s - 2) + 2"
    using NC_valid(4) [OF assms] by linarith
  then show "length (self_packet s) = nat (self_division_x s - 2) + 2"
    using NC_lengths(3) [OF assms] by simp
qed (simp_all add: NC_lengths [OF assms])

lemma NC_timesteps:
  assumes c: "NumericalCalculation fdiv splu sp sb du en ph dx dt = Inr s0"
    and len: "\<forall>rhs. length rhs = length (self_A s0) \<longrightarrow> length (solve (self_lu s0) rhs) = length rhs"
  shows "\<exists>s. timesteps solve k s0 = Inr s
            \<and> s = s0\<lparr> self_packet := self_packet s, self_rhs_eq := self_rhs_eq s \<rparr>
            \<and> length (self_packet s) = nat (self_division_x s0)
            \<and> self_packet s ! 0 = self_packet s0 ! 0
            \<and> self_packet s ! (nat (self_division_x s0) - 1)
                = self_packet s0 ! (nat (self_division_x s0) - 1)"
proof -
  let ?n = "nat (self_division_x s0 - 2)"
  note p = NC_step_pre [OF c]
  have l: "\<forall>rhs. length rhs = ?n \<longrightarrow> length (solve (self_lu s0) rhs) = ?n"
    using len p(2) by simp
  have "\<exists>s'. timesteps solve k s0 = Inr s'
            \<and> self_packet s' ! 0 = self_packet s0 ! 0
            \<and> self_packet s' ! (?n + 1) = self_packet s0 ! (?n + 1)
            \<and> length (self_rhs_eq s') = ?n"
    using l refl p(1) p(3) p(4) p(5)
    by (rule timesteps_total [where solve = solve and lu = "self_lu s0"])
  then obtain s where s: "timesteps solve k s0 = Inr s"
    and b0: "self_packet s ! 0 = self_packet s0 ! 0"
    and b1: "self_packet s ! (?n + 1) = self_packet s0 ! (?n + 1)"
    by blast
  have N: "nat (self_division_x s0) - 1 = ?n + 1"
    using NC_valid(4) [OF c] by linarith
  from timesteps_frame [OF s] NC_lengths(3) [OF c] s b0 b1 N show ?thesis
    by auto
qed


subsection \<open>The example with a single interior point\<close>

text \<open>
  With \<open>dx = 12000 pm\<close> the grid has three points, \<open>A\<close> is the \<open>1 \<times> 1\<close> matrix
  \<open>1 + 2r\<close>, which is not zero because \<open>r\<close> is imaginary, and \<open>scalar_solve\<close> solves
  the system.
\<close>

lemma Re_coeff_r [simp]: "Re (coeff_r dt dx) = 0"
proof -
  have "coeff_r dt dx = \<i> * complex_of_real (dt / dx ^ 2 * hbar / (4 * m_e))"
    by (simp add: coeff_r_def)
  then show ?thesis by simp
qed


lemma build_A_1: "build_A 1 r = [[1 + 2 * r]]"
  by (simp add: build_A_def zeros_matrix_def)

lemma length_scalar_solve [simp]: "length (scalar_solve lu rhs) = length rhs"
  by (simp add: scalar_solve_def)


lemma single_point_example:
  shows "NumericalCalculation (/) Some 1 1 1 1 1 12000 400 = Inr single_point_calc"
    and "self_division_x single_point_calc = 3"
    and "self_lu single_point_calc = self_A single_point_calc"
    and "self_A single_point_calc = [[1 + 2 * coeff_r (self_dt single_point_calc) (self_dx single_point_calc)]]"
proof -
  have "\<not> isl (NumericalCalculation (/) Some 1 1 1 1 1 12000 400)"
    by (rule NC_succeeds) (simp_all add: py_int_def)
  then show ok: "(NumericalCalculation (/) Some 1 1 1 1 1 12000 400) = Inr single_point_calc"
    by (rule not_isl_Inr)
  show N: "self_division_x single_point_calc = 3"
    using NC_divisions(1) [OF ok] by (simp add: py_int_def)
  show "self_lu single_point_calc = self_A single_point_calc"
    using NC_valid(6) [OF ok] by simp
  show "self_A single_point_calc = [[1 + 2 * coeff_r (self_dt single_point_calc) (self_dx single_point_calc)]]"
    using NC_derived(5) [OF ok] N build_A_1 by simp
qed


subsection \<open>Grid spacing, the Gaussian, and the example with two interior points\<close>

lemma NC_floor:
  assumes "NumericalCalculation fdiv splu sp sb du en ph dx dt = Inr s"
  shows "self_division_x s = \<lfloor>fdiv (self_x_max s - self_x_min s) (self_dx s)\<rfloor>"
    and "3 \<le> fdiv (self_x_max s - self_x_min s) (self_dx s)"
  using py_int_ge [of "fdiv (self_x_max s - self_x_min s) (self_dx s)"]
    NC_fields(12) [OF assms] NC_valid(4) [OF assms]
  by simp_all

lemma linspace_step:
  assumes "Suc i < n"
  shows "linspace a b n ! Suc i - linspace a b n ! i = (b - a) / real (n - 1)"
proof -
  define h where "h = (b - a) / real (n - 1)"
  have "linspace a b n ! Suc i = a + real (Suc i) * h" "linspace a b n ! i = a + real i * h"
    using assms by (simp_all add: linspace_nth h_def)
  then have "linspace a b n ! Suc i - linspace a b n ! i = h"
    by (simp add: algebra_simps)
  then show ?thesis by (simp add: h_def)
qed

lemma gauss_nonzero: "size_packet \<noteq> 0 \<Longrightarrow> gauss x_packet size_packet k x \<noteq> 0"
  by (simp add: gauss_def)


text \<open>
  With \<open>dx = 10000 pm\<close> the grid has the four points \<open>0, 14, 28, 42 nm\<close>; the
  barrier starts at \<open>18 nm\<close>.
\<close>

lemma coarse_example:
  shows "(NumericalCalculation (/) Some 1 sb 1 1 1 10000 400) = Inr (coarse_calc sb)"
    and "self_division_x (coarse_calc sb) = 4"
    and "self_x_max (coarse_calc sb) = 42 / 10 ^ 9"
    and "self_x_min (coarse_calc sb) = 0"
    and "self_x_barrier (coarse_calc sb) = 18 / 10 ^ 9"
    and "self_size_barrier (coarse_calc sb) = sb / 10 ^ 9"
    and "self_dx (coarse_calc sb) = 1 / 10 ^ 8"
    and "self_x (coarse_calc sb) ! 1 = 14 / 10 ^ 9"
    and "self_x (coarse_calc sb) ! 2 = 28 / 10 ^ 9"
proof -
  have "\<not> isl (NumericalCalculation (/) Some 1 sb 1 1 1 10000 400)"
    by (rule NC_succeeds) (simp_all add: py_int_def)
  then show ok: "(NumericalCalculation (/) Some 1 sb 1 1 1 10000 400) = Inr (coarse_calc sb)"
    by (rule not_isl_Inr)
  note f = NC_fields [OF ok]
  show N: "self_division_x (coarse_calc sb) = 4"
    using NC_divisions(1) [OF ok] by (simp add: py_int_def)
  have sp: "self_size_packet (coarse_calc sb) = 1 / 10 ^ 9"
    using f(1) by simp
  have xp: "self_x_packet (coarse_calc sb) = 12 / 10 ^ 9"
    unfolding f(8) sp by simp
  show xb: "self_x_barrier (coarse_calc sb) = 18 / 10 ^ 9"
    unfolding f(9) xp sp by simp
  show xmax: "self_x_max (coarse_calc sb) = 42 / 10 ^ 9"
    unfolding f(11) xb sp by simp
  show xmin: "self_x_min (coarse_calc sb) = 0"
    by (rule f(10))
  show "self_size_barrier (coarse_calc sb) = sb / 10 ^ 9"
    using f(2) by simp
  show "self_dx (coarse_calc sb) = 1 / 10 ^ 8"
    using f(6) by simp
  have x: "self_x (coarse_calc sb) = linspace 0 (42 / 10 ^ 9) 4"
    unfolding f(13) N xmax xmin by simp
  show "self_x (coarse_calc sb) ! 1 = 14 / 10 ^ 9"
    unfolding x by (simp add: linspace_nth)
  show "self_x (coarse_calc sb) ! 2 = 28 / 10 ^ 9"
    unfolding x by (simp add: linspace_nth)
qed

subsection \<open>The exceptions of the constructor, and the default parameters\<close>


lemma default_example:
  shows "(NumericalCalculation (/) Some 1 1 30 1 1 10 10) = Inr default_calc"
    and "self_division_time default_calc = 3000"
    and "self_division_x default_calc = 4200"
    and "(self_x_max default_calc - self_x_min default_calc) / self_dx default_calc = 4200"
    and "self_time_duration default_calc / self_dt default_calc = 3000"
proof -
  have "\<not> isl (NumericalCalculation (/) Some 1 1 30 1 1 10 10)"
    by (rule NC_succeeds) (simp_all add: py_int_def)
  then show ok: "(NumericalCalculation (/) Some 1 1 30 1 1 10 10) = Inr default_calc"
    by (rule not_isl_Inr)
  show "self_division_time default_calc = 3000"
    using NC_divisions(2) [OF ok] by (simp add: py_int_def)
  show "self_division_x default_calc = 4200"
    using NC_divisions(1) [OF ok] by (simp add: py_int_def)
  note f = NC_fields [OF ok]
  show "(self_x_max default_calc - self_x_min default_calc) / self_dx default_calc = 4200"
    unfolding f(11) f(10) f(9) f(8) f(1) f(6) by simp
  show "self_time_duration default_calc / self_dt default_calc = 3000"
    unfolding f(3) f(7) by simp
qed


section \<open>The claims\<close>

subsection \<open>C1: assembly of the system matrices\<close>

text \<open>
  Claim C1. For every successful construction the matrices \<open>A\<close> and \<open>B\<close> are square of
  dimension \<open>n = N - 2\<close> and the vector \<open>b\<close> has length \<open>n\<close>, where \<open>N\<close> is
  \<open>division_x\<close>. \<open>A\<close> is tridiagonal with \<open>1 + 2r\<close> on the main diagonal and \<open>-r\<close> on
  both neighbouring diagonals; \<open>B\<close> is tridiagonal with
  \<open>q\<^sub>j = -i dt / hbar * V\<^sub>j + 1 - 2r\<close> on the main diagonal, \<open>V\<close> taken at the interior
  point \<open>j\<close> (grid index \<open>j + 1\<close>), and \<open>r\<close> on both neighbouring diagonals; \<open>b\<close> is
  zero. Here \<open>r = i dt / dx\<^sup>2 * hbar / (4 m_e)\<close> with \<open>dx\<close> and \<open>dt\<close> the stored SI
  values (picometres and attoseconds scaled to metres and seconds).
\<close>

theorem C1_system_matrices:
  assumes "NumericalCalculation fdiv splu size_packet size_barrier duration_time energy_packet
             potential_barrier_height dx dt = Inr s"
    and "r = \<i> * complex_of_real (self_dt s) / complex_of_real ((self_dx s) ^ 2)
               * complex_of_real hbar / complex_of_real (4 * m_e)"
    and "n = nat (self_division_x s - 2)"
  shows "self_dx s = dx * (1 / 10 ^ 12) \<and> self_dt s = dt * (1 / 10 ^ 18)
       \<and> int n = self_division_x s - 2
       \<and> length (self_A s) = n \<and> (\<forall>i<n. length (self_A s ! i) = n)
       \<and> length (self_B s) = n \<and> (\<forall>i<n. length (self_B s ! i) = n)
       \<and> self_b s = replicate n 0
       \<and> (\<forall>i<n. \<forall>j<n. self_A s ! i ! j =
             (if i = j then 1 + 2 * r else if i = Suc j \<or> j = Suc i then - r else 0))
       \<and> (\<forall>i<n. \<forall>j<n. self_B s ! i ! j =
             (if i = j
              then - \<i> * complex_of_real (self_dt s) / complex_of_real hbar
                     * complex_of_real (self_V s ! Suc i) + 1 - 2 * r
              else if i = Suc j \<or> j = Suc i then r else 0))"
proof -
  note f = NC_fields [OF assms(1)] and d = NC_derived [OF assms(1)]
    and v = NC_valid [OF assms(1)] and l = NC_lengths [OF assms(1)]
  have r: "r = coeff_r (self_dt s) (self_dx s)"
    using assms(2) by (simp add: coeff_r_def)
  have A: "self_A s = build_A n r" and B: "self_B s = build_B n r (coeff_q (self_dt s) (self_dx s) (self_V s))"
    using d(5,6) r assms(3) by simp_all
  have lq: "length (coeff_q (self_dt s) (self_dx s) (self_V s)) = n"
    using l(2,8) assms(3) by simp
  have q: "coeff_q (self_dt s) (self_dx s) (self_V s) ! i =
             - \<i> * complex_of_real (self_dt s) / complex_of_real hbar
               * complex_of_real (self_V s ! Suc i) + 1 - 2 * r" if "i < n" for i
    using that l(2,8) assms(3) r by (simp add: coeff_q_nth)
  have units: "self_dx s = dx * (1 / 10 ^ 12) \<and> self_dt s = dt * (1 / 10 ^ 18)"
    using f(6,7) by simp
  have dim: "int n = self_division_x s - 2"
    using v(4) assms(3) by simp
  have lenA: "length (self_A s) = n \<and> (\<forall>i<n. length (self_A s ! i) = n)"
    by (simp add: A)
  have lenB: "length (self_B s) = n \<and> (\<forall>i<n. length (self_B s ! i) = n)"
    by (simp add: B)
  have b: "self_b s = replicate n 0"
    using d(7) assms(3) by simp
  have entA: "\<forall>i<n. \<forall>j<n. self_A s ! i ! j =
             (if i = j then 1 + 2 * r else if i = Suc j \<or> j = Suc i then - r else 0)"
    by (simp add: A build_A_nth)
  have entB: "\<forall>i<n. \<forall>j<n. self_B s ! i ! j =
             (if i = j
              then - \<i> * complex_of_real (self_dt s) / complex_of_real hbar
                     * complex_of_real (self_V s ! Suc i) + 1 - 2 * r
              else if i = Suc j \<or> j = Suc i then r else 0)"
    using lq q by (simp add: B build_B_nth)
  from units dim lenA lenB b entA entB show ?thesis by blast
qed

text \<open>
  The coarse grid \<open>dx = 10000 pm\<close> gives \<open>N = 4\<close> and two interior points.
\<close>

theorem C1_system_matrices_witness:
  "NumericalCalculation (/) Some 1 1 1 1 1 10000 400
     = Inr (coarse_calc 1)
   \<and> self_division_x (coarse_calc 1) = 4
   \<and> length (self_A (coarse_calc 1)) = 2
   \<and> self_b (coarse_calc 1) = [0, 0]
   \<and> self_A (coarse_calc 1) ! 0 ! 1
       = - (\<i> * complex_of_real (400 * (1 / 10 ^ 18)) / complex_of_real ((10000 * (1 / 10 ^ 12)) ^ 2)
               * complex_of_real hbar / complex_of_real (4 * m_e))"
proof -
  let ?c = "NumericalCalculation (/) Some 1 1 1 1 1 10000 400"
  have "\<not> isl ?c"
    by (rule NC_succeeds) (simp_all add: py_int_def)
  then have ok: "?c = Inr (projr ?c)"
    by (rule not_isl_Inr)
  have N: "self_division_x (projr ?c) = 4"
    using NC_divisions(1) [OF ok] by (simp add: py_int_def)
  have dxdt: "self_dx (projr ?c) = 10000 * (1 / 10 ^ 12)" "self_dt (projr ?c) = 400 * (1 / 10 ^ 18)"
    using NC_fields(6,7) [OF ok] by simp_all
  have n: "nat (self_division_x (projr ?c) - 2) = 2"
    using N by simp
  note c1 = C1_system_matrices [OF ok refl refl, unfolded n dxdt]
  from c1 have lenA: "length (self_A (projr ?c)) = 2"
    by blast
  from c1 have "self_b (projr ?c) = replicate 2 0"
    by blast
  then have b: "self_b (projr ?c) = [0, 0]"
    by (simp add: numeral_2_eq_2)
  from c1 have "\<forall>i<2. \<forall>j<2. self_A (projr ?c) ! i ! j =
      (if i = j
       then 1 + 2 * (\<i> * complex_of_real (400 * (1 / 10 ^ 18))
                        / complex_of_real ((10000 * (1 / 10 ^ 12)) ^ 2)
                        * complex_of_real hbar / complex_of_real (4 * m_e))
       else if i = Suc j \<or> j = Suc i
       then - (\<i> * complex_of_real (400 * (1 / 10 ^ 18))
                 / complex_of_real ((10000 * (1 / 10 ^ 12)) ^ 2)
                 * complex_of_real hbar / complex_of_real (4 * m_e))
       else 0)"
    by blast
  from this [rule_format, of 0 1] have ent: "self_A (projr ?c) ! 0 ! 1
       = - (\<i> * complex_of_real (400 * (1 / 10 ^ 18)) / complex_of_real ((10000 * (1 / 10 ^ 12)) ^ 2)
               * complex_of_real hbar / complex_of_real (4 * m_e))"
    by simp
  from ok N lenA b ent show ?thesis
    by blast
qed

subsection \<open>C2: the time step and the cached right-hand side\<close>



subsection \<open>C3: one factorisation, and what a time step leaves alone\<close>

text \<open>
  Claim C3. The factorisation object stored at construction is the one \<open>splu\<close> returned
  for \<open>A\<close>, and \<open>A\<close> is the only matrix the constructor asks \<open>splu\<close> about: any
  other \<open>splu'\<close> that agrees with \<open>splu\<close> on \<open>A\<close> constructs the same instance.
  \<open>calculate_timestep\<close> does not take \<open>splu\<close>, only the \<open>solve\<close> method of the stored
  object; with a \<open>solve\<close> that returns vectors of the dimension of \<open>A\<close>,
  every run of \<open>k\<close> time steps ends in a state that differs from the constructed one in
  the fields \<open>packet\<close> and \<open>rhs_eq\<close> only: the grids \<open>x\<close> and \<open>t\<close>, the potential
  \<open>V\<close>, the wavenumber data \<open>k\<close> and \<open>K\<close>, \<open>A\<close>, \<open>B\<close>, \<open>b\<close> and the
  factorisation are the constructed ones.
\<close>

theorem C3_factorisation_frame:
  assumes "NumericalCalculation fdiv splu size_packet size_barrier duration_time energy_packet
             potential_barrier_height dx dt = Inr s0"
    and "\<forall>rhs. length rhs = length (self_A s0) \<longrightarrow> length (solve (self_lu s0) rhs) = length rhs"
  shows "splu (self_A s0) = Some (self_lu s0)
       \<and> (\<forall>k. \<exists>s. timesteps solve k s0 = Inr s
              \<and> s = s0\<lparr> self_packet := self_packet s, self_rhs_eq := self_rhs_eq s \<rparr>
              \<and> self_lu s = self_lu s0 \<and> self_A s = self_A s0 \<and> self_B s = self_B s0
              \<and> self_b s = self_b s0 \<and> self_x s = self_x s0 \<and> self_t s = self_t s0
              \<and> self_V s = self_V s0 \<and> self_k s = self_k s0 \<and> self_K s = self_K s0)
       \<and> (\<forall>splu'. splu' (self_A s0) = splu (self_A s0) \<longrightarrow>
              NumericalCalculation fdiv splu' size_packet size_barrier duration_time energy_packet
                potential_barrier_height dx dt = Inr s0)"
proof (intro conjI allI impI)
  show "splu (self_A s0) = Some (self_lu s0)"
    by (rule NC_valid(6) [OF assms(1)])
next
  fix splu'
  assume "splu' (self_A s0) = splu (self_A s0)"
  with assms(1) show "NumericalCalculation fdiv splu' size_packet size_barrier duration_time
      energy_packet potential_barrier_height dx dt = Inr s0"
    by (rule NC_splu_cong)
next
  fix k
  from NC_timesteps [where solve = solve and k = k, OF assms]
  obtain s where s: "timesteps solve k s0 = Inr s"
    and fr: "s = s0\<lparr> self_packet := self_packet s, self_rhs_eq := self_rhs_eq s \<rparr>"
    by blast
  have "self_lu s = self_lu s0" "self_A s = self_A s0" "self_B s = self_B s0"
    "self_b s = self_b s0" "self_x s = self_x s0" "self_t s = self_t s0"
    "self_V s = self_V s0" "self_k s = self_k s0" "self_K s = self_K s0"
    by (subst fr, simp)+
  with s fr show "\<exists>s. timesteps solve k s0 = Inr s
              \<and> s = s0\<lparr> self_packet := self_packet s, self_rhs_eq := self_rhs_eq s \<rparr>
              \<and> self_lu s = self_lu s0 \<and> self_A s = self_A s0 \<and> self_B s = self_B s0
              \<and> self_b s = self_b s0 \<and> self_x s = self_x s0 \<and> self_t s = self_t s0
              \<and> self_V s = self_V s0 \<and> self_k s = self_k s0 \<and> self_K s = self_K s0"
    by blast
qed

theorem C3_factorisation_frame_witness:
  "NumericalCalculation (/) Some 1 1 1 1 1 12000 400 = Inr single_point_calc
   \<and> Some (self_A single_point_calc) = Some (self_lu single_point_calc)
   \<and> (\<exists>s. timesteps scalar_solve 2 single_point_calc = Inr s
         \<and> s = single_point_calc\<lparr> self_packet := self_packet s, self_rhs_eq := self_rhs_eq s \<rparr>
         \<and> self_lu s = self_lu single_point_calc \<and> self_A s = self_A single_point_calc \<and> self_B s = self_B single_point_calc
         \<and> self_V s = self_V single_point_calc)"
proof -
  have len: "\<forall>rhs. length rhs = length (self_A single_point_calc) \<longrightarrow>
      length (scalar_solve (self_lu single_point_calc) rhs) = length rhs"
    by simp
  note t = C3_factorisation_frame [where solve = scalar_solve, OF single_point_example(1) len]
  from t have "Some (self_A single_point_calc) = Some (self_lu single_point_calc)"
    by (rule conjunct1)
  moreover from t [THEN conjunct2, THEN conjunct1, THEN spec, of 2]
  have "\<exists>s. timesteps scalar_solve 2 single_point_calc = Inr s
         \<and> s = single_point_calc\<lparr> self_packet := self_packet s, self_rhs_eq := self_rhs_eq s \<rparr>
         \<and> self_lu s = self_lu single_point_calc \<and> self_A s = self_A single_point_calc \<and> self_B s = self_B single_point_calc
         \<and> self_V s = self_V single_point_calc"
    by blast
  ultimately show ?thesis
    using single_point_example(1) by blast
qed

subsection \<open>C4: what makes the constructor fail\<close>




subsection \<open>C5: the two boundary entries\<close>

text \<open>
  Claim C5. The first and the last entry of the state vector are, at construction, the
  Gaussian at \<open>x_min\<close> and at \<open>x_max\<close>; with a \<open>solve\<close> that returns vectors of the
  dimension of \<open>A\<close>, after every number of time steps \<open>get_packet\<close> returns a vector of
  length \<open>N\<close> with the same first and last entry.
\<close>

theorem C5_boundary_entries:
  assumes "NumericalCalculation fdiv splu size_packet size_barrier duration_time energy_packet
             potential_barrier_height dx dt = Inr s0"
    and "\<forall>rhs. length rhs = length (self_A s0) \<longrightarrow> length (solve (self_lu s0) rhs) = length rhs"
    and "N = nat (self_division_x s0)"
  shows "get_packet s0 ! 0
           = gauss (self_x_packet s0) (self_size_packet s0) (self_k s0) (self_x_min s0)
       \<and> get_packet s0 ! (N - 1)
           = gauss (self_x_packet s0) (self_size_packet s0) (self_k s0) (self_x_max s0)
       \<and> (\<forall>k. \<exists>s. timesteps solve k s0 = Inr s
              \<and> length (get_packet s) = N
              \<and> get_packet s ! 0 = get_packet s0 ! 0
              \<and> get_packet s ! (N - 1) = get_packet s0 ! (N - 1))"
proof -
  note c = assms(1)
  have N3: "3 \<le> N" using NC_valid(4) [OF c] assms(3) by simp
  have x: "self_x s0 = linspace (self_x_min s0) (self_x_max s0) N"
    using NC_fields(13) [OF c] assms(3) by simp
  have p: "self_packet s0 = map (gauss (self_x_packet s0) (self_size_packet s0) (self_k s0)) (self_x s0)"
    by (rule NC_derived(8) [OF c])
  have x0: "self_x s0 ! 0 = self_x_min s0"
    using N3 by (simp add: x linspace_nth)
  have xl: "self_x s0 ! (N - 1) = self_x_max s0"
    using N3 linspace_last [of N] by (simp add: x)
  have first: "get_packet s0 ! 0
           = gauss (self_x_packet s0) (self_size_packet s0) (self_k s0) (self_x_min s0)"
    using N3 x0 by (simp add: get_packet_def p x)
  have last: "get_packet s0 ! (N - 1)
           = gauss (self_x_packet s0) (self_size_packet s0) (self_k s0) (self_x_max s0)"
    using N3 xl by (simp add: get_packet_def p x)
  have steps: "\<exists>s. timesteps solve k s0 = Inr s
              \<and> length (get_packet s) = N
              \<and> get_packet s ! 0 = get_packet s0 ! 0
              \<and> get_packet s ! (N - 1) = get_packet s0 ! (N - 1)" for k
    using NC_timesteps [where solve = solve and k = k, OF c assms(2)] assms(3)
    unfolding get_packet_def by blast
  from first last steps show ?thesis by blast
qed

theorem C5_boundary_entries_witness:
  "NumericalCalculation (/) Some 1 1 1 1 1 12000 400 = Inr single_point_calc
   \<and> (\<exists>s. timesteps scalar_solve 2 single_point_calc = Inr s
         \<and> length (get_packet s) = 3
         \<and> get_packet s ! 0 = get_packet single_point_calc ! 0
         \<and> get_packet s ! 2 = get_packet single_point_calc ! 2)"
proof -
  have len: "\<forall>rhs. length rhs = length (self_A single_point_calc) \<longrightarrow>
      length (scalar_solve (self_lu single_point_calc) rhs) = length rhs"
    by simp
  have N: "(3::nat) = nat (self_division_x single_point_calc)"
    by (simp add: single_point_example(2))
  note t = C5_boundary_entries [where solve = scalar_solve, OF single_point_example(1) len N]
  from t [THEN conjunct2, THEN conjunct2, THEN spec, of 2]
  have "\<exists>s. timesteps scalar_solve 2 single_point_calc = Inr s
         \<and> length (get_packet s) = 3
         \<and> get_packet s ! 0 = get_packet single_point_calc ! 0
         \<and> get_packet s ! 2 = get_packet single_point_calc ! 2"
    by simp
  then show ?thesis
    using single_point_example(1) by blast
qed

subsection \<open>C6: the derived positions and the spatial grid\<close>



subsection \<open>C7: the initial state vector\<close>

text \<open>
  Claim C7. For a non-negative packet energy (numpy's square root of a negative number is
  NaN, which the model has no value for), the central wavenumber is
  \<open>k = sqrt (2 m_e E) / hbar\<close> and the initial state vector has, at each of the \<open>N\<close>
  grid points \<open>x\<close>, the value
  \<open>exp (- (x - x_packet)\<^sup>2 / (4 size_packet\<^sup>2) + i k x) / (2 pi size_packet\<^sup>2) powr 0.25\<close>.
  This includes the two boundary points, whose entries are therefore not zero.
\<close>

theorem C7_initial_packet:
  assumes "NumericalCalculation fdiv splu size_packet size_barrier duration_time energy_packet
             potential_barrier_height dx dt = Inr s"
    and "0 \<le> energy_packet"
    and "N = nat (self_division_x s)"
  shows "self_energy_packet s = energy_packet * elementary_charge
       \<and> self_k s = sqrt (2 * m_e * self_energy_packet s) / hbar
       \<and> length (self_packet s) = N
       \<and> (\<forall>i<N. self_packet s ! i
             = exp (complex_of_real (- ((self_x s ! i - self_x_packet s) ^ 2)
                                       / (4 * (self_size_packet s) ^ 2))
                    + \<i> * complex_of_real (self_k s) * complex_of_real (self_x s ! i))
               / complex_of_real ((2 * pi * (self_size_packet s) ^ 2) powr 0.25))
       \<and> self_packet s ! 0 \<noteq> 0
       \<and> self_packet s ! (N - 1) \<noteq> 0"
proof -
  note c = assms(1)
  have N3: "3 \<le> N" using NC_valid(4) [OF c] assms(3) by simp
  have lx: "length (self_x s) = N"
    using NC_lengths(1) [OF c] assms(3) by simp
  have p: "self_packet s
             = map (gauss (self_x_packet s) (self_size_packet s) (self_k s)) (self_x s)"
    by (rule NC_derived(8) [OF c])
  have sp: "self_size_packet s \<noteq> 0"
    using NC_valid(3) [OF c] NC_fields(1) [OF c] by simp
  have len: "length (self_packet s) = N"
    by (simp add: p lx)
  have pts: "\<forall>i<N. self_packet s ! i
             = exp (complex_of_real (- ((self_x s ! i - self_x_packet s) ^ 2)
                                       / (4 * (self_size_packet s) ^ 2))
                    + \<i> * complex_of_real (self_k s) * complex_of_real (self_x s ! i))
               / complex_of_real ((2 * pi * (self_size_packet s) ^ 2) powr 0.25)"
    by (simp add: p lx gauss_def)
  have nz: "self_packet s ! i \<noteq> 0" if "i < N" for i
    using that sp by (simp add: p lx gauss_nonzero)
  have "self_packet s ! 0 \<noteq> 0" "self_packet s ! (N - 1) \<noteq> 0"
    using N3 by (simp_all add: nz)
  with NC_fields(4) [OF c] NC_derived(2) [OF c] len pts show ?thesis
    by blast
qed

theorem C7_initial_packet_witness:
  "(NumericalCalculation (/) Some 1 1 1 1 1 10000 400) = Inr (coarse_calc 1)
   \<and> (0::real) \<le> 1
   \<and> self_k (coarse_calc 1) = sqrt (2 * m_e * self_energy_packet (coarse_calc 1)) / hbar
   \<and> length (self_packet (coarse_calc 1)) = 4
   \<and> self_packet (coarse_calc 1) ! 0 \<noteq> 0
   \<and> self_packet (coarse_calc 1) ! 3 \<noteq> 0"
proof -
  note ok = coarse_example(1) [of 1]
  have N: "(4::nat) = nat (self_division_x (coarse_calc 1))"
    by (simp add: coarse_example(2))
  have e: "(0::real) \<le> 1" by simp
  note t = C7_initial_packet [OF ok e N]
  from t have "self_k (coarse_calc 1) = sqrt (2 * m_e * self_energy_packet (coarse_calc 1)) / hbar"
    "length (self_packet (coarse_calc 1)) = 4" "self_packet (coarse_calc 1) ! 0 \<noteq> 0"
    by blast+
  moreover from t have "self_packet (coarse_calc 1) ! (4 - 1) \<noteq> 0"
    by blast
  then have "self_packet (coarse_calc 1) ! 3 \<noteq> 0"
    by simp
  ultimately show ?thesis
    using ok e by blast
qed

subsection \<open>C8: the potential profile\<close>



subsection \<open>C9: the default parameters\<close>

text \<open>
  Claim C9 says that the default parameters give \<open>T = 3,000,000\<close> time points. The
  quotient of \<open>30 fs\<close> and \<open>10 as\<close> is \<open>3000\<close>, Python's double for it is
  \<open>3000 + 2\<^sup>-\<^sup>4\<^sup>1\<close>, and \<open>division_time\<close> is \<open>3000\<close>.
\<close>

theorem C9_counterexample:
  "(NumericalCalculation (/) Some 1 1 30 1 1 10 10) = Inr default_calc
   \<and> self_division_time default_calc = 3000
   \<and> self_division_time default_calc \<noteq> 3000000"
  using default_example(1,2) by simp

text \<open>
  Claim C9, amended. With the default parameters, and float quotients in \<open>[4200, 4201)\<close>
  and \<open>[3000, 3001)\<close> (Python's are \<open>4200 + 2\<^sup>-\<^sup>4\<^sup>0\<close> and \<open>3000 + 2\<^sup>-\<^sup>4\<^sup>1\<close>),
  \<open>T = floor (30 fs / 10 as) = 3000\<close> and \<open>N = 4200\<close>; \<open>get_packet\<close> returns a vector
  of length \<open>N\<close> after construction, and, with a \<open>solve\<close> that returns vectors of the
  dimension of \<open>A\<close>, the first call of \<open>calculate_timestep\<close> returns a state whose
  vector has length \<open>N\<close> again.
\<close>

theorem C9_default_parameters:
  assumes "NumericalCalculation fdiv splu 1 1 30 1 1 10 10 = Inr s"
    and "\<forall>rhs. length rhs = length (self_A s) \<longrightarrow> length (solve (self_lu s) rhs) = length rhs"
    and "4200 \<le> fdiv (self_x_max s - self_x_min s) (self_dx s)
         \<and> fdiv (self_x_max s - self_x_min s) (self_dx s) < 4201"
    and "3000 \<le> fdiv (self_time_duration s) (self_dt s)
         \<and> fdiv (self_time_duration s) (self_dt s) < 3001"
  shows "self_time_duration s = 30 / 10 ^ 15
       \<and> self_dt s = 10 / 10 ^ 18
       \<and> self_division_time s = \<lfloor>self_time_duration s / self_dt s\<rfloor>
       \<and> self_division_time s = 3000
       \<and> self_division_x s = 4200
       \<and> length (get_packet s) = 4200
       \<and> (\<exists>s'. calculate_timestep solve s = Inr s' \<and> length (get_packet s') = 4200)"
proof -
  note c = assms(1)
  have td: "self_time_duration s = 30 / 10 ^ 15" and dt: "self_dt s = 10 / 10 ^ 18"
    using NC_fields(3,7) [OF c] by simp_all
  have T: "self_division_time s = 3000"
    unfolding NC_fields(14) [OF c] using assms(4) by (simp add: py_int_def) linarith
  have fl: "self_division_time s = \<lfloor>self_time_duration s / self_dt s\<rfloor>"
    unfolding T td dt by simp
  have N: "self_division_x s = 4200"
    unfolding NC_fields(12) [OF c] using assms(3) by (simp add: py_int_def) linarith
  have len0: "length (get_packet s) = 4200"
    using NC_lengths(3) [OF c] N by (simp add: get_packet_def)
  from NC_timesteps [where solve = solve and k = 1, OF c assms(2)]
  obtain s' where "timesteps solve 1 s = Inr s'" and l: "length (self_packet s') = nat (self_division_x s)"
    by blast
  then have "calculate_timestep solve s = Inr s'"
    by (simp split: sum.splits)
  with l N have "\<exists>s'. calculate_timestep solve s = Inr s' \<and> length (get_packet s') = 4200"
    by (auto simp: get_packet_def)
  with td dt fl T N len0 show ?thesis by blast
qed

theorem C9_default_parameters_witness:
  "(NumericalCalculation (/) Some 1 1 30 1 1 10 10) = Inr default_calc
   \<and> self_division_time default_calc = 3000
   \<and> self_division_x default_calc = 4200
   \<and> length (get_packet default_calc) = 4200
   \<and> (\<exists>s'. calculate_timestep scalar_solve default_calc = Inr s' \<and> length (get_packet s') = 4200)"
proof -
  have len: "\<forall>rhs. length rhs = length (self_A default_calc) \<longrightarrow>
      length (scalar_solve (self_lu default_calc) rhs) = length rhs"
    by simp
  have qx: "4200 \<le> (self_x_max default_calc - self_x_min default_calc) / self_dx default_calc
         \<and> (self_x_max default_calc - self_x_min default_calc) / self_dx default_calc < 4201"
    unfolding default_example(4) by simp
  have qt: "3000 \<le> self_time_duration default_calc / self_dt default_calc
         \<and> self_time_duration default_calc / self_dt default_calc < 3001"
    unfolding default_example(5) by simp
  from C9_default_parameters [where solve = scalar_solve, OF default_example(1) len qx qt]
    default_example(1)
  show ?thesis by blast
qed

subsection \<open>C10: the realised grid spacing is not the configured step\<close>

text \<open>
  Claim C10. Consecutive grid points of a successful construction are
  \<open>(x_max - x_min) / (N - 1)\<close> apart. \<open>N\<close> is the integer part of the float quotient
  \<open>(x_max - x_min) / dx\<close>; whenever that float quotient exceeds the real quotient by less
  than one, as the exact quotient does and as a rounded quotient below \<open>2\<^sup>5\<^sup>3\<close> does, the
  spacing is not the configured step \<open>dx\<close>. The diagonal of \<open>A\<close> is \<open>1 + 2r\<close> with
  \<open>r = i dt / dx\<^sup>2 * hbar / (4 m_e)\<close> computed from the configured \<open>dx\<close>.
\<close>

theorem C10_grid_spacing:
  assumes "NumericalCalculation fdiv splu size_packet size_barrier duration_time energy_packet
             potential_barrier_height dx dt = Inr s"
    and "N = nat (self_division_x s)"
    and "spacing = (self_x_max s - self_x_min s) / real (N - 1)"
    and "fdiv (self_x_max s - self_x_min s) (self_dx s)
           < (self_x_max s - self_x_min s) / self_dx s + 1"
  shows "(\<forall>i. Suc i < N \<longrightarrow> self_x s ! Suc i - self_x s ! i = spacing)
       \<and> spacing \<noteq> self_dx s
       \<and> self_dx s = dx * (1 / 10 ^ 12)
       \<and> (\<forall>i. i < N - 2 \<longrightarrow> self_A s ! i ! i
             = 1 + 2 * (\<i> * complex_of_real (self_dt s) / complex_of_real ((self_dx s) ^ 2)
                          * complex_of_real hbar / complex_of_real (4 * m_e)))"
proof -
  note c = assms(1)
  note f = NC_fields [OF c]
  have N3: "3 \<le> N" using NC_valid(4) [OF c] assms(2) by simp
  have x: "self_x s = linspace (self_x_min s) (self_x_max s) N"
    using f(13) assms(2) by simp
  have step: "\<forall>i. Suc i < N \<longrightarrow> self_x s ! Suc i - self_x s ! i = spacing"
    by (simp add: x linspace_step assms(3))
  have ne: "spacing \<noteq> self_dx s"
  proof
    assume eq: "spacing = self_dx s"
    let ?L = "self_x_max s - self_x_min s"
    have dx0: "self_dx s \<noteq> 0" using NC_valid(1) [OF c] f(6) by simp
    have N1: "real (N - 1) \<noteq> 0" using N3 by simp
    have "?L = self_dx s * real (N - 1)"
      using eq N1 by (simp add: assms(3) field_simps)
    then have "?L / self_dx s = real (N - 1)"
      using dx0 by simp
    then have "fdiv ?L (self_dx s) < real (N - 1) + 1"
      using assms(4) by simp
    then have "\<lfloor>fdiv ?L (self_dx s)\<rfloor> < int (N - 1) + 1"
      by linarith
    then have "self_division_x s < int (N - 1) + 1"
      using NC_floor(1) [OF c] by simp
    then show False
      using N3 assms(2) by linarith
  qed
  have diag: "\<forall>i. i < N - 2 \<longrightarrow> self_A s ! i ! i
             = 1 + 2 * (\<i> * complex_of_real (self_dt s) / complex_of_real ((self_dx s) ^ 2)
                          * complex_of_real hbar / complex_of_real (4 * m_e))"
    using NC_derived(5) [OF c] NC_lengths(8) [OF c] assms(2)
    by (simp add: build_A_nth coeff_r_def)
  from step ne f(6) diag show ?thesis by blast
qed

theorem C10_grid_spacing_witness:
  "(NumericalCalculation (/) Some 1 1 1 1 1 10000 400) = Inr (coarse_calc 1)
   \<and> self_x (coarse_calc 1) ! 2 - self_x (coarse_calc 1) ! 1 = 14 / 10 ^ 9
   \<and> self_dx (coarse_calc 1) = 1 / 10 ^ 8
   \<and> (self_x_max (coarse_calc 1) - self_x_min (coarse_calc 1)) / real (4 - 1) \<noteq> self_dx (coarse_calc 1)
   \<and> self_A (coarse_calc 1) ! 0 ! 0
       = 1 + 2 * (\<i> * complex_of_real (self_dt (coarse_calc 1)) / complex_of_real ((self_dx (coarse_calc 1)) ^ 2)
                    * complex_of_real hbar / complex_of_real (4 * m_e))"
proof -
  note ok = coarse_example(1) [of 1]
  have N: "(4::nat) = nat (self_division_x (coarse_calc 1))"
    by (simp add: coarse_example(2))
  have q: "(self_x_max (coarse_calc 1) - self_x_min (coarse_calc 1)) / self_dx (coarse_calc 1)
      < (self_x_max (coarse_calc 1) - self_x_min (coarse_calc 1)) / self_dx (coarse_calc 1) + 1"
    by simp
  note t = C10_grid_spacing [OF ok N refl q]
  from t have "\<forall>i. Suc i < 4 \<longrightarrow> self_x (coarse_calc 1) ! Suc i - self_x (coarse_calc 1) ! i
      = (self_x_max (coarse_calc 1) - self_x_min (coarse_calc 1)) / real (4 - 1)"
    by blast
  from this [rule_format, of 1] have "self_x (coarse_calc 1) ! 2 - self_x (coarse_calc 1) ! 1 = 14 / 10 ^ 9"
    unfolding coarse_example(3,4) by (simp add: numeral_2_eq_2)
  moreover from t have "(self_x_max (coarse_calc 1) - self_x_min (coarse_calc 1)) / real (4 - 1) \<noteq> self_dx (coarse_calc 1)"
    by blast
  moreover from t have "\<forall>i. i < 4 - 2 \<longrightarrow> self_A (coarse_calc 1) ! i ! i
       = 1 + 2 * (\<i> * complex_of_real (self_dt (coarse_calc 1)) / complex_of_real ((self_dx (coarse_calc 1)) ^ 2)
                    * complex_of_real hbar / complex_of_real (4 * m_e))"
    by blast
  from this [rule_format, of 0] have "self_A (coarse_calc 1) ! 0 ! 0
       = 1 + 2 * (\<i> * complex_of_real (self_dt (coarse_calc 1)) / complex_of_real ((self_dx (coarse_calc 1)) ^ 2)
                    * complex_of_real hbar / complex_of_real (4 * m_e))"
    by simp
  ultimately show ?thesis
    using ok coarse_example(7) [of 1] by blast
qed

end
